theory Spec2Isabelle
  imports Complex_Main
begin

chapter \<open>Head-coupled perspective: projection solver, smoothing filters, head pose\<close>

section \<open>JavaScript numbers\<close>

text \<open>
  A JavaScript number is a finite value, one of the two infinities, or NaN. Finite values
  are modelled as reals: rounding, overflow to an infinity and the sign of zero are outside
  the model (the single zero divides like \<open>+0\<close>). The operations below follow IEEE 754
  on the non-finite values: an undefined form (\<open>Infinity - Infinity\<close>, \<open>0 * Infinity\<close>,
  \<open>0 / 0\<close>, \<open>Infinity / Infinity\<close>) is NaN, a non-zero finite value divided by zero is an
  infinity, and every comparison with NaN is false. A decimal literal of the source
  (\<open>0.5\<close>, \<open>11.7\<close>) stands for its decimal value.

  Since finite arithmetic is exact here, a finite operation never yields an infinity, a
  zero from non-zero operands, or NaN, as it can in the code by overflow and underflow.
  The statements on the frustum extents that speak of NaN or of \<open>==\<close> are therefore put so
  that they hold for infinite operands too, and they do not assert that an extent is
  finite.
\<close>

datatype jsnum = Fin real | PInf | NInf | NaN

fun jneg :: "jsnum \<Rightarrow> jsnum" where
  "jneg (Fin a) = Fin (- a)"
| "jneg PInf = NInf"
| "jneg NInf = PInf"
| "jneg NaN = NaN"

fun jadd :: "jsnum \<Rightarrow> jsnum \<Rightarrow> jsnum" where
  "jadd (Fin a) (Fin b) = Fin (a + b)"
| "jadd NaN _ = NaN"
| "jadd _ NaN = NaN"
| "jadd PInf NInf = NaN"
| "jadd NInf PInf = NaN"
| "jadd PInf _ = PInf"
| "jadd _ PInf = PInf"
| "jadd NInf _ = NInf"
| "jadd _ NInf = NInf"

definition jsub :: "jsnum \<Rightarrow> jsnum \<Rightarrow> jsnum" where
  "jsub a b = jadd a (jneg b)"

fun jmul :: "jsnum \<Rightarrow> jsnum \<Rightarrow> jsnum" where
  "jmul (Fin a) (Fin b) = Fin (a * b)"
| "jmul NaN _ = NaN"
| "jmul _ NaN = NaN"
| "jmul (Fin a) PInf = (if a = 0 then NaN else if 0 < a then PInf else NInf)"
| "jmul (Fin a) NInf = (if a = 0 then NaN else if 0 < a then NInf else PInf)"
| "jmul PInf (Fin b) = (if b = 0 then NaN else if 0 < b then PInf else NInf)"
| "jmul NInf (Fin b) = (if b = 0 then NaN else if 0 < b then NInf else PInf)"
| "jmul PInf PInf = PInf"
| "jmul PInf NInf = NInf"
| "jmul NInf PInf = NInf"
| "jmul NInf NInf = PInf"

fun jdiv :: "jsnum \<Rightarrow> jsnum \<Rightarrow> jsnum" where
  "jdiv (Fin a) (Fin b) =
     (if b = 0 then (if a = 0 then NaN else if 0 < a then PInf else NInf)
      else Fin (a / b))"
| "jdiv NaN _ = NaN"
| "jdiv _ NaN = NaN"
| "jdiv (Fin a) PInf = Fin 0"
| "jdiv (Fin a) NInf = Fin 0"
| "jdiv PInf (Fin b) = (if 0 \<le> b then PInf else NInf)"
| "jdiv NInf (Fin b) = (if 0 \<le> b then NInf else PInf)"
| "jdiv PInf PInf = NaN"
| "jdiv PInf NInf = NaN"
| "jdiv NInf PInf = NaN"
| "jdiv NInf NInf = NaN"

fun jabs :: "jsnum \<Rightarrow> jsnum" where
  "jabs (Fin a) = Fin \<bar>a\<bar>"
| "jabs PInf = PInf"
| "jabs NInf = PInf"
| "jabs NaN = NaN"

fun jsqrt :: "jsnum \<Rightarrow> jsnum" where
  "jsqrt (Fin a) = (if a < 0 then NaN else Fin (sqrt a))"
| "jsqrt PInf = PInf"
| "jsqrt NInf = NaN"
| "jsqrt NaN = NaN"

fun jlt :: "jsnum \<Rightarrow> jsnum \<Rightarrow> bool" where
  "jlt (Fin a) (Fin b) = (a < b)"
| "jlt NaN _ = False"
| "jlt _ NaN = False"
| "jlt PInf _ = False"
| "jlt _ NInf = False"
| "jlt _ PInf = True"
| "jlt NInf _ = True"

fun jle :: "jsnum \<Rightarrow> jsnum \<Rightarrow> bool" where
  "jle (Fin a) (Fin b) = (a \<le> b)"
| "jle NaN _ = False"
| "jle _ NaN = False"
| "jle NInf _ = True"
| "jle _ PInf = True"
| "jle PInf _ = False"
| "jle _ NInf = False"

definition jeq :: "jsnum \<Rightarrow> jsnum \<Rightarrow> bool" where
  "jeq a b = (a \<noteq> NaN \<and> a = b)"

section \<open>Off-axis projection (SceneManager.js)\<close>

text \<open>
  A \<open>Vec3\<close> object \<open>{x, y, z}\<close>. The fields are named \<open>vx\<close>, \<open>vy\<close>, \<open>vz\<close>; the
  fields of \<open>FrustumParams\<close> carry the prefix \<open>fr_\<close>.
\<close>

record 'a vec3 =
  vx :: 'a
  vy :: 'a
  vz :: 'a

record ScreenGeometry =
  width :: jsnum
  height :: jsnum

record FrustumParams =
  fr_left :: jsnum
  fr_right :: jsnum
  fr_top :: jsnum
  fr_bottom :: jsnum
  fr_near :: jsnum
  fr_far :: jsnum

text \<open>
  \<open>calculateOffAxisFrustum\<close> calls itself when the eye is on or behind the screen plane.
  The recursive call is kept as it is written; it terminates because the nudged eye has
  \<open>z = 1\<close>.
\<close>

function calculateOffAxisFrustum ::
  "jsnum vec3 \<Rightarrow> ScreenGeometry \<Rightarrow> jsnum \<Rightarrow> jsnum \<Rightarrow> FrustumParams" where
  "calculateOffAxisFrustum eyePos screen near far =
     (let halfW = jdiv (width screen) (Fin 2);
          halfH = jdiv (height screen) (Fin 2);
          pa_x = jneg halfW; pa_y = jneg halfH; pa_z = Fin 0;
          pb_x = halfW;
          pc_y = halfH;
          va_x = jsub pa_x (vx eyePos);
          va_y = jsub pa_y (vy eyePos);
          va_z = jsub pa_z (vz eyePos);
          vb_x = jsub pb_x (vx eyePos);
          vc_y = jsub pc_y (vy eyePos);
          d = jneg va_z
      in if jle d (Fin 0)
         then calculateOffAxisFrustum
                \<lparr>vx = vx eyePos, vy = vy eyePos, vz = Fin 1\<rparr> screen near far
         else (let k = jdiv near d;
                   left = jmul va_x k;
                   right = jmul vb_x k;
                   bottom = jmul va_y k;
                   top = jmul vc_y k
               in \<lparr>fr_left = left, fr_right = right, fr_top = top,
                   fr_bottom = bottom, fr_near = near, fr_far = far\<rparr>))"
  by pat_completeness auto
termination
  apply (relation "measure (\<lambda>(eyePos, screen, near, far).
            if jle (jneg (jsub (Fin 0) (vz eyePos))) (Fin 0) then 1 else 0)")
  apply (auto simp: jsub_def)
  done

declare calculateOffAxisFrustum.simps [simp del]

subsection \<open>Vector helpers\<close>

definition sub :: "jsnum vec3 \<Rightarrow> jsnum vec3 \<Rightarrow> jsnum vec3" where
  "sub a b = \<lparr>vx = jsub (vx a) (vx b), vy = jsub (vy a) (vy b), vz = jsub (vz a) (vz b)\<rparr>"

definition add :: "jsnum vec3 \<Rightarrow> jsnum vec3 \<Rightarrow> jsnum vec3" where
  "add a b = \<lparr>vx = jadd (vx a) (vx b), vy = jadd (vy a) (vy b), vz = jadd (vz a) (vz b)\<rparr>"

definition scale :: "jsnum vec3 \<Rightarrow> jsnum \<Rightarrow> jsnum vec3" where
  "scale v s = \<lparr>vx = jmul (vx v) s, vy = jmul (vy v) s, vz = jmul (vz v) s\<rparr>"

definition dot :: "jsnum vec3 \<Rightarrow> jsnum vec3 \<Rightarrow> jsnum" where
  "dot a b = jadd (jadd (jmul (vx a) (vx b)) (jmul (vy a) (vy b))) (jmul (vz a) (vz b))"

definition cross :: "jsnum vec3 \<Rightarrow> jsnum vec3 \<Rightarrow> jsnum vec3" where
  "cross a b =
     \<lparr>vx = jsub (jmul (vy a) (vz b)) (jmul (vz a) (vy b)),
      vy = jsub (jmul (vz a) (vx b)) (jmul (vx a) (vz b)),
      vz = jsub (jmul (vx a) (vy b)) (jmul (vy a) (vx b))\<rparr>"

definition normalize_vec :: "jsnum vec3 \<Rightarrow> jsnum vec3" where
  "normalize_vec v =
     (let len = jsqrt (jadd (jadd (jmul (vx v) (vx v)) (jmul (vy v) (vy v)))
                            (jmul (vz v) (vz v)))
      in if jeq len (Fin 0) then \<lparr>vx = Fin 0, vy = Fin 0, vz = Fin 0\<rparr>
         else \<lparr>vx = jdiv (vx v) len, vy = jdiv (vy v) len, vz = jdiv (vz v) len\<rparr>)"

text \<open>
  \<open>calculateGeneralizedProjection\<close> recurses on the nudged eye. Nothing in the source
  bounds that recursion, so the model counts call depth: the first argument is the number
  of nested calls still available, and \<open>None\<close> means that the call did not return within
  that depth.
\<close>

record GeneralizedProjection =
  frustum :: FrustumParams
  viewMatrix :: "jsnum list"

fun calculateGeneralizedProjection ::
  "nat \<Rightarrow> jsnum vec3 \<Rightarrow> jsnum vec3 \<Rightarrow> jsnum vec3 \<Rightarrow> jsnum vec3 \<Rightarrow> jsnum \<Rightarrow> jsnum
     \<Rightarrow> GeneralizedProjection option" where
  "calculateGeneralizedProjection 0 eyePos screenLL screenLR screenUL near far = None"
| "calculateGeneralizedProjection (Suc fuel) eyePos screenLL screenLR screenUL near far =
     (let vr = normalize_vec (sub screenLR screenLL);
          vu = normalize_vec (sub screenUL screenLL);
          vn = normalize_vec (cross vr vu);
          va = sub screenLL eyePos;
          vb = sub screenLR eyePos;
          vc = sub screenUL eyePos;
          d = jneg (dot va vn)
      in if jle d (Fin 0)
         then (let nudged = add eyePos (scale vn (jsub (Fin 1) d))
               in calculateGeneralizedProjection fuel nudged screenLL screenLR screenUL
                    near far)
         else (let k = jdiv near d;
                   left = jmul (dot vr va) k;
                   right = jmul (dot vr vb) k;
                   bottom = jmul (dot vu va) k;
                   top = jmul (dot vu vc) k;
                   tx = jneg (dot vr eyePos);
                   ty = jneg (dot vu eyePos);
                   tz = jneg (dot vn eyePos);
                   viewMatrix =
                     [vx vr, vx vu, vx vn, Fin 0,
                      vy vr, vy vu, vy vn, Fin 0,
                      vz vr, vz vu, vz vn, Fin 0,
                      tx, ty, tz, Fin 1]
               in Some \<lparr>frustum = \<lparr>fr_left = left, fr_right = right, fr_top = top,
                                     fr_bottom = bottom, fr_near = near, fr_far = far\<rparr>,
                         viewMatrix = viewMatrix\<rparr>))"

section \<open>Smoothing (Smoothing.js)\<close>

text \<open>
  A field that holds \<open>null\<close> or a number is a \<open>jsnum option\<close>. Arithmetic on such a
  value converts \<open>null\<close> to \<open>0\<close>, as JavaScript does. Every method takes the object's
  state and returns the result together with the new state.
\<close>

definition ToNumber :: "jsnum option \<Rightarrow> jsnum" where
  "ToNumber v = (case v of None \<Rightarrow> Fin 0 | Some n \<Rightarrow> n)"

record LowPassFilter =
  prev :: "jsnum option"

definition LowPassFilter_new :: LowPassFilter where
  "LowPassFilter_new = \<lparr>prev = None\<rparr>"

definition LowPassFilter_filter ::
  "LowPassFilter \<Rightarrow> jsnum \<Rightarrow> jsnum \<Rightarrow> jsnum \<times> LowPassFilter" where
  "LowPassFilter_filter s x alpha =
     (case prev s of
        None \<Rightarrow> (x, s\<lparr>prev := Some x\<rparr>)
      | Some p \<Rightarrow>
          (let filtered = jadd (jmul alpha x) (jmul (jsub (Fin 1) alpha) p)
           in (filtered, s\<lparr>prev := Some filtered\<rparr>)))"

definition LowPassFilter_reset :: "LowPassFilter \<Rightarrow> LowPassFilter" where
  "LowPassFilter_reset s = s\<lparr>prev := None\<rparr>"

record OneEuroFilter =
  minCutoff :: jsnum
  beta :: jsnum
  dCutoff :: jsnum
  xFilter :: LowPassFilter
  dxFilter :: LowPassFilter
  tPrev :: "jsnum option"

text \<open>A default parameter value: used when the option is absent.\<close>

definition default_to :: "'a \<Rightarrow> 'a option \<Rightarrow> 'a" where
  "default_to d v = (case v of None \<Rightarrow> d | Some a \<Rightarrow> a)"

definition OneEuroFilter_new ::
  "jsnum option \<Rightarrow> jsnum option \<Rightarrow> jsnum option \<Rightarrow> OneEuroFilter" where
  "OneEuroFilter_new minCutoff_opt beta_opt dCutoff_opt =
     \<lparr>minCutoff = default_to (Fin 1) minCutoff_opt,
      beta = default_to (Fin 0.5) beta_opt,
      dCutoff = default_to (Fin 1) dCutoff_opt,
      xFilter = LowPassFilter_new,
      dxFilter = LowPassFilter_new,
      tPrev = None\<rparr>"

text \<open>\<open>Math.PI\<close> is the double nearest to \<open>\<pi>\<close>, which is this rational number exactly.\<close>

definition Math_PI :: real where
  "Math_PI = 884279719003555 / 281474976710656"

definition OneEuroFilter_alpha :: "jsnum \<Rightarrow> jsnum \<Rightarrow> jsnum" where
  "OneEuroFilter_alpha cutoff dt =
     (let tau = jdiv (Fin 1) (jmul (jmul (Fin 2) (Fin Math_PI)) cutoff)
      in jdiv (Fin 1) (jadd (Fin 1) (jdiv tau dt)))"

definition OneEuroFilter_filter ::
  "OneEuroFilter \<Rightarrow> jsnum \<Rightarrow> jsnum \<Rightarrow> jsnum option \<times> OneEuroFilter" where
  "OneEuroFilter_filter s x timestamp =
     (case tPrev s of
        None \<Rightarrow>
          (let xf = snd (LowPassFilter_filter (xFilter s) x (Fin 1));
               dxf = snd (LowPassFilter_filter (dxFilter s) (Fin 0) (Fin 1))
           in (Some x, s\<lparr>tPrev := Some timestamp, xFilter := xf, dxFilter := dxf\<rparr>))
      | Some tp \<Rightarrow>
          (let dt = jsub timestamp tp
           in if jle dt (Fin 0) then (prev (xFilter s), s)
              else (let dx = jdiv (jsub x (ToNumber (prev (xFilter s)))) dt;
                        alphaDx = OneEuroFilter_alpha (dCutoff s) dt;
                        (dxSmoothed, dxf) = LowPassFilter_filter (dxFilter s) dx alphaDx;
                        cutoff = jadd (minCutoff s) (jmul (beta s) (jabs dxSmoothed));
                        alpha = OneEuroFilter_alpha cutoff dt;
                        (filtered, xf) = LowPassFilter_filter (xFilter s) x alpha
                    in (Some filtered,
                        s\<lparr>tPrev := Some timestamp, dxFilter := dxf, xFilter := xf\<rparr>))))"

definition OneEuroFilter_reset :: "OneEuroFilter \<Rightarrow> OneEuroFilter" where
  "OneEuroFilter_reset s =
     s\<lparr>xFilter := LowPassFilter_reset (xFilter s),
       dxFilter := LowPassFilter_reset (dxFilter s),
       tPrev := None\<rparr>"

definition DEFAULT_DEAD_ZONE :: jsnum where
  "DEFAULT_DEAD_ZONE = Fin 2"

record Vector3OneEuroFilter =
  filterX :: OneEuroFilter
  filterY :: OneEuroFilter
  filterZ :: OneEuroFilter
  deadZone :: jsnum
  lastOutput :: "jsnum option vec3 option"

definition Vector3OneEuroFilter_new ::
  "jsnum option \<Rightarrow> jsnum option \<Rightarrow> jsnum option \<Rightarrow> jsnum option
     \<Rightarrow> Vector3OneEuroFilter" where
  "Vector3OneEuroFilter_new minCutoff_opt beta_opt dCutoff_opt deadZone_opt =
     (let mc = Some (default_to (Fin 1) minCutoff_opt);
          b = Some (default_to (Fin 0.5) beta_opt);
          dc = Some (default_to (Fin 1) dCutoff_opt)
      in \<lparr>filterX = OneEuroFilter_new mc b dc,
          filterY = OneEuroFilter_new mc b dc,
          filterZ = OneEuroFilter_new mc b dc,
          deadZone = default_to DEFAULT_DEAD_ZONE deadZone_opt,
          lastOutput = None\<rparr>)"

text \<open>
  The distance computed inside \<open>Vector3OneEuroFilter.filter\<close>
  (\<open>dx\<close>, \<open>dy\<close>, \<open>dz\<close>, \<open>dist\<close>).
\<close>

definition dead_zone_dist :: "jsnum option vec3 \<Rightarrow> jsnum option vec3 \<Rightarrow> jsnum" where
  "dead_zone_dist filtered lo =
     (let dx = jsub (ToNumber (vx filtered)) (ToNumber (vx lo));
          dy = jsub (ToNumber (vy filtered)) (ToNumber (vy lo));
          dz = jsub (ToNumber (vz filtered)) (ToNumber (vz lo))
      in jsqrt (jadd (jadd (jmul dx dx) (jmul dy dy)) (jmul dz dz)))"

definition Vector3OneEuroFilter_filter ::
  "Vector3OneEuroFilter \<Rightarrow> jsnum vec3 \<Rightarrow> jsnum
     \<Rightarrow> jsnum option vec3 \<times> Vector3OneEuroFilter" where
  "Vector3OneEuroFilter_filter s pos timestamp =
     (let (fx, sx) = OneEuroFilter_filter (filterX s) (vx pos) timestamp;
          (fy, sy) = OneEuroFilter_filter (filterY s) (vy pos) timestamp;
          (fz, sz) = OneEuroFilter_filter (filterZ s) (vz pos) timestamp;
          s1 = s\<lparr>filterX := sx, filterY := sy, filterZ := sz\<rparr>;
          filtered = \<lparr>vx = fx, vy = fy, vz = fz\<rparr>
      in case (if jlt (Fin 0) (deadZone s1) then lastOutput s1 else None) of
           Some lo \<Rightarrow>
             if jlt (dead_zone_dist filtered lo) (deadZone s1) then (lo, s1)
             else (filtered, s1\<lparr>lastOutput := Some filtered\<rparr>)
         | None \<Rightarrow> (filtered, s1\<lparr>lastOutput := Some filtered\<rparr>))"

definition Vector3OneEuroFilter_reset :: "Vector3OneEuroFilter \<Rightarrow> Vector3OneEuroFilter" where
  "Vector3OneEuroFilter_reset s =
     s\<lparr>filterX := OneEuroFilter_reset (filterX s),
       filterY := OneEuroFilter_reset (filterY s),
       filterZ := OneEuroFilter_reset (filterZ s),
       lastOutput := None\<rparr>"

section \<open>Head pose estimation (HeadPoseEstimator.js)\<close>

text \<open>
  The landmarks argument is \<open>None\<close> for \<open>null\<close>, otherwise the array. Reading a field of
  a landmark whose index is past the end of the array raises a \<open>TypeError\<close>; the
  calibration failure is the \<open>Error\<close> thrown by \<open>calibrate\<close>. A method that throws
  returns the error together with the state as it was at the throw. The clock
  \<open>performance.now()\<close> is an argument of \<open>estimate\<close>, in milliseconds.
\<close>

datatype error = TypeError | CalibrationError

definition IRIS_DIAMETER_MM :: jsnum where
  "IRIS_DIAMETER_MM = Fin 11.7"

definition MIN_IRIS_PX :: jsnum where
  "MIN_IRIS_PX = Fin 5"

record SmoothingOptions =
  opt_minCutoff :: "jsnum option"
  opt_beta :: "jsnum option"
  opt_dCutoff :: "jsnum option"
  opt_deadZone :: "jsnum option"

record Config =
  screenWidthMm :: jsnum
  screenHeightMm :: jsnum
  defaultViewingDistance :: jsnum
  videoWidth :: "jsnum option"
  videoHeight :: "jsnum option"
  sensitivityX :: "jsnum option"
  sensitivityY :: "jsnum option"
  sensitivityZ :: "jsnum option"
  cfg_useIrisDepth :: "bool option"
  cfg_focalLengthPx :: "jsnum option"
  smoothing :: "SmoothingOptions option"

record HeadPoseEstimator =
  screenW :: jsnum
  screenH :: jsnum
  defaultZ :: jsnum
  videoW :: jsnum
  videoH :: jsnum
  sensX :: jsnum
  sensY :: jsnum
  sensZ :: jsnum
  useIrisDepth :: bool
  focalLengthPx :: "jsnum option"
  filter_v :: Vector3OneEuroFilter
  wasTracking :: bool

definition HeadPoseEstimator_new :: "Config \<Rightarrow> HeadPoseEstimator" where
  "HeadPoseEstimator_new config =
     \<lparr>screenW = screenWidthMm config,
      screenH = screenHeightMm config,
      defaultZ = defaultViewingDistance config,
      videoW = default_to (Fin 640) (videoWidth config),
      videoH = default_to (Fin 480) (videoHeight config),
      sensX = default_to (Fin 1) (sensitivityX config),
      sensY = default_to (Fin 1) (sensitivityY config),
      sensZ = default_to (Fin 1) (sensitivityZ config),
      useIrisDepth = default_to False (cfg_useIrisDepth config),
      focalLengthPx = cfg_focalLengthPx config,
      filter_v =
        (case smoothing config of
           None \<Rightarrow> Vector3OneEuroFilter_new None None None None
         | Some opts \<Rightarrow>
             Vector3OneEuroFilter_new (opt_minCutoff opts) (opt_beta opts)
               (opt_dCutoff opts) (opt_deadZone opts)),
      wasTracking = False\<rparr>"

definition landmark_at :: "jsnum vec3 list \<Rightarrow> nat \<Rightarrow> error + jsnum vec3" where
  "landmark_at landmarks i =
     (if i < length landmarks then Inr (landmarks ! i) else Inl TypeError)"

definition irisWidthPx :: "HeadPoseEstimator \<Rightarrow> jsnum vec3 list \<Rightarrow> error + jsnum" where
  "irisWidthPx s landmarks =
     (case landmark_at landmarks 469 of Inl e \<Rightarrow> Inl e | Inr l469 \<Rightarrow>
     (case landmark_at landmarks 471 of Inl e \<Rightarrow> Inl e | Inr l471 \<Rightarrow>
     (case landmark_at landmarks 474 of Inl e \<Rightarrow> Inl e | Inr l474 \<Rightarrow>
     (case landmark_at landmarks 476 of Inl e \<Rightarrow> Inl e | Inr l476 \<Rightarrow>
        (let leftW = jmul (jabs (jsub (vx l469) (vx l471))) (videoW s);
             rightW = jmul (jabs (jsub (vx l474) (vx l476))) (videoW s)
         in Inr (jdiv (jadd leftW rightW) (Fin 2)))))))"

definition estimateDepthFromIris ::
  "HeadPoseEstimator \<Rightarrow> jsnum vec3 list \<Rightarrow> error + jsnum" where
  "estimateDepthFromIris s landmarks =
     (case irisWidthPx s landmarks of
        Inl e \<Rightarrow> Inl e
      | Inr irisPx \<Rightarrow>
          if jlt irisPx MIN_IRIS_PX then Inr (defaultZ s)
          else Inr (jdiv (jmul (ToNumber (focalLengthPx s)) IRIS_DIAMETER_MM) irisPx))"

definition estimate ::
  "HeadPoseEstimator \<Rightarrow> jsnum vec3 list option \<Rightarrow> jsnum
     \<Rightarrow> (error + jsnum option vec3 option) \<times> HeadPoseEstimator" where
  "estimate s landmarks now =
     (let face_lost =
            (Inr None,
             if wasTracking s
             then s\<lparr>filter_v := Vector3OneEuroFilter_reset (filter_v s),
                    wasTracking := False\<rparr>
             else s)
      in case landmarks of
           None \<Rightarrow> face_lost
         | Some lms \<Rightarrow>
             if length lms = 0 then face_lost
             else
               (let s1 = s\<lparr>wasTracking := True\<rparr>
                in case landmark_at lms 1 of
                     Inl e \<Rightarrow> (Inl e, s1)
                   | Inr nose \<Rightarrow>
                       (let x = jmul (jsub (vx nose) (Fin 0.5)) (screenW s1);
                            y = jmul (jsub (Fin 0.5) (vy nose)) (screenH s1)
                        in case (if useIrisDepth s1 \<and> focalLengthPx s1 \<noteq> None
                                 then estimateDepthFromIris s1 lms
                                 else Inr (defaultZ s1)) of
                             Inl e \<Rightarrow> (Inl e, s1)
                           | Inr z0 \<Rightarrow>
                               (let x' = jmul x (sensX s1);
                                    y' = jmul y (sensY s1);
                                    z' = jadd (defaultZ s1)
                                           (jmul (jsub z0 (defaultZ s1)) (sensZ s1));
                                    t = jdiv now (Fin 1000);
                                    (out, f) = Vector3OneEuroFilter_filter (filter_v s1)
                                                 \<lparr>vx = x', vy = y', vz = z'\<rparr> t
                                in (Inr (Some out), s1\<lparr>filter_v := f\<rparr>)))))"


definition HeadPoseEstimator_reset :: "HeadPoseEstimator \<Rightarrow> HeadPoseEstimator" where
  "HeadPoseEstimator_reset s =
     s\<lparr>filter_v := Vector3OneEuroFilter_reset (filter_v s), wasTracking := False\<rparr>"

section \<open>Derived notions used in the statements\<close>

text \<open>
  The class invariant of \<open>OneEuroFilter\<close> that the statements need: a filter without a
  recorded timestamp has no stored value either.
\<close>

definition OneEuroFilter_consistent :: "OneEuroFilter \<Rightarrow> bool" where
  "OneEuroFilter_consistent s = (tPrev s = None \<longrightarrow> prev (xFilter s) = None)"

text \<open>
  The point made of the three per-axis results, and the state with the three axes
  advanced.
\<close>

definition axis_filtered ::
  "Vector3OneEuroFilter \<Rightarrow> jsnum vec3 \<Rightarrow> jsnum \<Rightarrow> jsnum option vec3" where
  "axis_filtered s pos timestamp =
     \<lparr>vx = fst (OneEuroFilter_filter (filterX s) (vx pos) timestamp),
      vy = fst (OneEuroFilter_filter (filterY s) (vy pos) timestamp),
      vz = fst (OneEuroFilter_filter (filterZ s) (vz pos) timestamp)\<rparr>"

definition axis_advanced ::
  "Vector3OneEuroFilter \<Rightarrow> jsnum vec3 \<Rightarrow> jsnum \<Rightarrow> Vector3OneEuroFilter" where
  "axis_advanced s pos timestamp =
     s\<lparr>filterX := snd (OneEuroFilter_filter (filterX s) (vx pos) timestamp),
       filterY := snd (OneEuroFilter_filter (filterY s) (vy pos) timestamp),
       filterZ := snd (OneEuroFilter_filter (filterZ s) (vz pos) timestamp)\<rparr>"

text \<open>
  The quantities of \<open>calculateGeneralizedProjection\<close>: the screen normal \<open>vn\<close>, the
  distance \<open>d\<close> of the eye from the screen plane, and the nudged eye of the fallback.
\<close>

definition screen_normal :: "jsnum vec3 \<Rightarrow> jsnum vec3 \<Rightarrow> jsnum vec3 \<Rightarrow> jsnum vec3" where
  "screen_normal screenLL screenLR screenUL =
     normalize_vec (cross (normalize_vec (sub screenLR screenLL))
                          (normalize_vec (sub screenUL screenLL)))"

definition eye_distance ::
  "jsnum vec3 \<Rightarrow> jsnum vec3 \<Rightarrow> jsnum vec3 \<Rightarrow> jsnum vec3 \<Rightarrow> jsnum" where
  "eye_distance eyePos screenLL screenLR screenUL =
     jneg (dot (sub screenLL eyePos) (screen_normal screenLL screenLR screenUL))"

definition nudged_eye ::
  "jsnum vec3 \<Rightarrow> jsnum vec3 \<Rightarrow> jsnum vec3 \<Rightarrow> jsnum vec3 \<Rightarrow> jsnum vec3" where
  "nudged_eye eyePos screenLL screenLR screenUL =
     add eyePos (scale (screen_normal screenLL screenLR screenUL)
                       (jsub (Fin 1) (eye_distance eyePos screenLL screenLR screenUL)))"

section \<open>Example inputs\<close>

text \<open>
  A scalar filter after one call with the default parameters.
\<close>

definition example_scalar :: OneEuroFilter where
  "example_scalar =
     snd (OneEuroFilter_filter (OneEuroFilter_new None None None) (Fin 5) (Fin 1))"

text \<open>
  A vector filter with \<open>beta = 0\<close> and the default dead zone of 2 mm, after a first sample
  at the origin at time 0; the next sample arrives at time \<open>1 / (2 * Math.PI)\<close>, where
  the smoothing factor of both low-pass filters is exactly 1/2. \<open>example_axis\<close> is the
  state of each axis then.
\<close>

definition origin :: "jsnum vec3" where
  "origin = \<lparr>vx = Fin 0, vy = Fin 0, vz = Fin 0\<rparr>"

definition origin_out :: "jsnum option vec3" where
  "origin_out = \<lparr>vx = Some (Fin 0), vy = Some (Fin 0), vz = Some (Fin 0)\<rparr>"

definition example_filter :: Vector3OneEuroFilter where
  "example_filter =
     snd (Vector3OneEuroFilter_filter
            (Vector3OneEuroFilter_new None (Some (Fin 0)) None None) origin (Fin 0))"

definition example_time :: jsnum where
  "example_time = Fin (1 / (2 * Math_PI))"

definition example_axis :: OneEuroFilter where
  "example_axis = \<lparr>minCutoff = Fin 1, beta = Fin 0, dCutoff = Fin 1,
      xFilter = \<lparr>prev = Some (Fin 0)\<rparr>, dxFilter = \<lparr>prev = Some (Fin 0)\<rparr>,
      tPrev = Some (Fin 0)\<rparr>"

text \<open>
  478 landmarks with the nose tip at the image centre and both irises 10 px wide at a video
  width of 640 px; an estimator for a 344 x 215 mm screen with default viewing distance
  600 mm and every optional setting left out; the estimator after one \<open>estimate\<close> call
  at clock time 1000 ms, and after a following \<open>calibrate\<close> call at 1000 mm.
  \<open>tracked_axis v\<close> is the state of an axis of its filter after that first sample.
\<close>

definition example_landmarks :: "jsnum vec3 list" where
  "example_landmarks =
     (replicate 478 \<lparr>vx = Fin 0.5, vy = Fin 0.5, vz = Fin 0\<rparr>)
       [471 := \<lparr>vx = Fin (0.5 + 10 / 640), vy = Fin 0.5, vz = Fin 0\<rparr>,
        476 := \<lparr>vx = Fin (0.5 + 10 / 640), vy = Fin 0.5, vz = Fin 0\<rparr>]"

definition example_config :: Config where
  "example_config =
     \<lparr>screenWidthMm = Fin 344, screenHeightMm = Fin 215, defaultViewingDistance = Fin 600,
      videoWidth = None, videoHeight = None,
      sensitivityX = None, sensitivityY = None, sensitivityZ = None,
      cfg_useIrisDepth = None, cfg_focalLengthPx = None, smoothing = None\<rparr>"

definition example_estimator :: HeadPoseEstimator where
  "example_estimator = HeadPoseEstimator_new example_config"

definition example_tracking :: HeadPoseEstimator where
  "example_tracking = snd (estimate example_estimator (Some example_landmarks) (Fin 1000))"


definition tracked_axis :: "real \<Rightarrow> OneEuroFilter" where
  "tracked_axis v = \<lparr>minCutoff = Fin 1, beta = Fin (1 / 2), dCutoff = Fin 1,
      xFilter = \<lparr>prev = Some (Fin v)\<rparr>, dxFilter = \<lparr>prev = Some (Fin 0)\<rparr>,
      tPrev = Some (Fin 1)\<rparr>"

text \<open>
  The estimator \<open>example_tracking\<close> after tracking is lost, written out field by field.
\<close>

definition example_lost :: HeadPoseEstimator where
  "example_lost =
     \<lparr>screenW = Fin 344, screenH = Fin 215, defaultZ = Fin 600, videoW = Fin 640,
      videoH = Fin 480, sensX = Fin 1, sensY = Fin 1, sensZ = Fin 1, useIrisDepth = False,
      focalLengthPx = None,
      filter_v =
        \<lparr>filterX = \<lparr>minCutoff = Fin 1, beta = Fin (1 / 2), dCutoff = Fin 1,
                      xFilter = \<lparr>prev = None\<rparr>, dxFilter = \<lparr>prev = None\<rparr>, tPrev = None\<rparr>,
         filterY = \<lparr>minCutoff = Fin 1, beta = Fin (1 / 2), dCutoff = Fin 1,
                      xFilter = \<lparr>prev = None\<rparr>, dxFilter = \<lparr>prev = None\<rparr>, tPrev = None\<rparr>,
         filterZ = \<lparr>minCutoff = Fin 1, beta = Fin (1 / 2), dCutoff = Fin 1,
                      xFilter = \<lparr>prev = None\<rparr>, dxFilter = \<lparr>prev = None\<rparr>, tPrev = None\<rparr>,
         deadZone = Fin 2, lastOutput = None\<rparr>,
      wasTracking = False\<rparr>"

text \<open>
  For the vector filter example: a later sample time \<open>1 / Math.PI\<close>, and the state of an
  axis of \<open>example_filter\<close> after it has filtered the value \<open>a\<close> at \<open>example_time\<close>.
\<close>

definition example_time2 :: jsnum where
  "example_time2 = Fin (1 / Math_PI)"

definition advanced_axis :: "real \<Rightarrow> OneEuroFilter" where
  "advanced_axis a = \<lparr>minCutoff = Fin 1, beta = Fin 0, dCutoff = Fin 1,
      xFilter = \<lparr>prev = Some (Fin (a / 2))\<rparr>,
      dxFilter = \<lparr>prev = Some (Fin (a * Math_PI))\<rparr>,
      tPrev = Some example_time\<rparr>"

section \<open>The projection solver\<close>

lemma jneg_jsub_zero: "jneg (jsub (Fin 0) z) = z"
  by (cases z) (simp_all add: jsub_def)

lemma jlt_not_jle: "jlt a b \<Longrightarrow> \<not> jle b a"
  by (cases a; cases b) simp_all

lemma calculateOffAxisFrustum_direct:
  "\<not> jle (vz eyePos) (Fin 0) \<Longrightarrow>
   calculateOffAxisFrustum eyePos screen near far =
     \<lparr>fr_left = jmul (jsub (jneg (jdiv (width screen) (Fin 2))) (vx eyePos))
                     (jdiv near (vz eyePos)),
      fr_right = jmul (jsub (jdiv (width screen) (Fin 2)) (vx eyePos))
                      (jdiv near (vz eyePos)),
      fr_top = jmul (jsub (jdiv (height screen) (Fin 2)) (vy eyePos))
                    (jdiv near (vz eyePos)),
      fr_bottom = jmul (jsub (jneg (jdiv (height screen) (Fin 2))) (vy eyePos))
                       (jdiv near (vz eyePos)),
      fr_near = near, fr_far = far\<rparr>"
  by (subst calculateOffAxisFrustum.simps) (simp add: Let_def jneg_jsub_zero)

lemma calculateOffAxisFrustum_nudge:
  "jle (vz eyePos) (Fin 0) \<Longrightarrow>
   calculateOffAxisFrustum eyePos screen near far =
   calculateOffAxisFrustum \<lparr>vx = vx eyePos, vy = vy eyePos, vz = Fin 1\<rparr> screen near far"
  by (subst calculateOffAxisFrustum.simps) (simp add: Let_def jneg_jsub_zero)

text \<open>
  C1. At screen 344 x 215 mm, near 1, far 10000 and eye (0, 0, 600) the claim gives the
  half-extents of the screen as the frustum: left -172, right 172, bottom -107.5,
  top 107.5. The code scales them by \<open>k = near / d = 1 / 600\<close>, so none of the four
  extents it returns is the one of the claim.
\<close>

theorem end_to_end_example_unscaled_counterexample:
  "fr_left (calculateOffAxisFrustum \<lparr>vx = Fin 0, vy = Fin 0, vz = Fin 600\<rparr>
              \<lparr>width = Fin 344, height = Fin 215\<rparr> (Fin 1) (Fin 10000)) \<noteq> Fin (- 172) \<and>
   fr_right (calculateOffAxisFrustum \<lparr>vx = Fin 0, vy = Fin 0, vz = Fin 600\<rparr>
              \<lparr>width = Fin 344, height = Fin 215\<rparr> (Fin 1) (Fin 10000)) \<noteq> Fin 172 \<and>
   fr_bottom (calculateOffAxisFrustum \<lparr>vx = Fin 0, vy = Fin 0, vz = Fin 600\<rparr>
              \<lparr>width = Fin 344, height = Fin 215\<rparr> (Fin 1) (Fin 10000)) \<noteq> Fin (- 107.5) \<and>
   fr_top (calculateOffAxisFrustum \<lparr>vx = Fin 0, vy = Fin 0, vz = Fin 600\<rparr>
              \<lparr>width = Fin 344, height = Fin 215\<rparr> (Fin 1) (Fin 10000)) \<noteq> Fin 107.5"
  by (simp add: calculateOffAxisFrustum_direct jsub_def)

text \<open>
  C1, amended. At that input the function returns the half-extents scaled by 1/600:
  left -172/600, right 172/600, bottom -107.5/600, top 107.5/600, with near 1 and
  far 10000.
\<close>

theorem end_to_end_example_scaled:
  "calculateOffAxisFrustum \<lparr>vx = Fin 0, vy = Fin 0, vz = Fin 600\<rparr>
     \<lparr>width = Fin 344, height = Fin 215\<rparr> (Fin 1) (Fin 10000) =
   \<lparr>fr_left = Fin (- 172 / 600), fr_right = Fin (172 / 600),
    fr_top = Fin (107.5 / 600), fr_bottom = Fin (- 107.5 / 600),
    fr_near = Fin 1, fr_far = Fin 10000\<rparr>"
  by (simp add: calculateOffAxisFrustum_direct jsub_def)

text \<open>
  C2. For an eye with \<open>z > 0\<close>, any screen geometry and any near and far, the function
  returns left = (-halfWidth - eye.x) * (near / eye.z), right = (halfWidth - eye.x) *
  (near / eye.z), bottom = (-halfHeight - eye.y) * (near / eye.z), top = (halfHeight -
  eye.y) * (near / eye.z), and near and far unchanged.
\<close>

theorem frustum_formula:
  "jlt (Fin 0) (vz eyePos) \<Longrightarrow>
   calculateOffAxisFrustum eyePos screen near far =
     \<lparr>fr_left = jmul (jsub (jneg (jdiv (width screen) (Fin 2))) (vx eyePos))
                     (jdiv near (vz eyePos)),
      fr_right = jmul (jsub (jdiv (width screen) (Fin 2)) (vx eyePos))
                      (jdiv near (vz eyePos)),
      fr_top = jmul (jsub (jdiv (height screen) (Fin 2)) (vy eyePos))
                    (jdiv near (vz eyePos)),
      fr_bottom = jmul (jsub (jneg (jdiv (height screen) (Fin 2))) (vy eyePos))
                       (jdiv near (vz eyePos)),
      fr_near = near, fr_far = far\<rparr>"
  by (rule calculateOffAxisFrustum_direct) (rule jlt_not_jle)

theorem frustum_formula_witness:
  "jlt (Fin 0) (vz \<lparr>vx = Fin 30, vy = Fin (- 20), vz = Fin 500\<rparr>) \<and>
   calculateOffAxisFrustum \<lparr>vx = Fin 30, vy = Fin (- 20), vz = Fin 500\<rparr>
     \<lparr>width = Fin 344, height = Fin 215\<rparr> (Fin 1) (Fin 10000) =
   \<lparr>fr_left = Fin (- 202 / 500), fr_right = Fin (142 / 500),
    fr_top = Fin (127.5 / 500), fr_bottom = Fin (- 87.5 / 500),
    fr_near = Fin 1, fr_far = Fin 10000\<rparr>"
  using frustum_formula [of "\<lparr>vx = Fin 30, vy = Fin (- 20), vz = Fin 500\<rparr>"
      "\<lparr>width = Fin 344, height = Fin 215\<rparr>" "Fin 1" "Fin 10000"]
  by (simp add: jsub_def)



lemma jdiv_one: "jdiv a (Fin 1) = a"
  by (cases a) simp_all

lemma jmul_pos_NaN_iff: "0 < n \<Longrightarrow> jmul a (Fin n) = NaN \<longleftrightarrow> a = NaN"
  by (cases a) auto




text \<open>
  The fallback of \<open>calculateOffAxisFrustum\<close> in closed form: the retry is the direct
  computation at \<open>z = 1\<close>, where the guard is false.
\<close>

lemma calculateOffAxisFrustum_one_retry:
  "jle (vz eyePos) (Fin 0) \<Longrightarrow>
   calculateOffAxisFrustum eyePos screen near far =
     \<lparr>fr_left = jmul (jsub (jneg (jdiv (width screen) (Fin 2))) (vx eyePos))
                     (jdiv near (Fin 1)),
      fr_right = jmul (jsub (jdiv (width screen) (Fin 2)) (vx eyePos))
                      (jdiv near (Fin 1)),
      fr_top = jmul (jsub (jdiv (height screen) (Fin 2)) (vy eyePos))
                    (jdiv near (Fin 1)),
      fr_bottom = jmul (jsub (jneg (jdiv (height screen) (Fin 2))) (vy eyePos))
                       (jdiv near (Fin 1)),
      fr_near = near, fr_far = far\<rparr>"
  by (simp add: calculateOffAxisFrustum_nudge calculateOffAxisFrustum_direct)

text \<open>
  C4. An eye with \<open>z \<le> 0\<close> gives the same result as the eye with the same x and y and
  \<open>z = 1\<close>, and that result is each corner offset times \<open>near\<close>: the division is by
  \<open>d = 1\<close>, never by zero. For a finite positive near an extent is NaN only if its
  corner offset is NaN, so for finite inputs no extent is NaN (an extent can still be an
  infinity in the code, where a product overflows). The eye (5, 3, 0) is the instance of
  the witness.
\<close>

theorem degenerate_eye_fallback:
  "(jle ez (Fin 0) \<longrightarrow>
      calculateOffAxisFrustum \<lparr>vx = ex, vy = ey, vz = ez\<rparr> screen near far =
      calculateOffAxisFrustum \<lparr>vx = ex, vy = ey, vz = Fin 1\<rparr> screen near far \<and>
      calculateOffAxisFrustum \<lparr>vx = ex, vy = ey, vz = ez\<rparr> screen near far =
        \<lparr>fr_left = jmul (jsub (jneg (jdiv (width screen) (Fin 2))) ex) near,
         fr_right = jmul (jsub (jdiv (width screen) (Fin 2)) ex) near,
         fr_top = jmul (jsub (jdiv (height screen) (Fin 2)) ey) near,
         fr_bottom = jmul (jsub (jneg (jdiv (height screen) (Fin 2))) ey) near,
         fr_near = near, fr_far = far\<rparr>) \<and>
   (jle ez (Fin 0) \<and> 0 < n \<longrightarrow>
      (let r = calculateOffAxisFrustum \<lparr>vx = ex, vy = ey, vz = ez\<rparr> screen (Fin n) far
       in (fr_left r = NaN \<longleftrightarrow> jsub (jneg (jdiv (width screen) (Fin 2))) ex = NaN) \<and>
          (fr_right r = NaN \<longleftrightarrow> jsub (jdiv (width screen) (Fin 2)) ex = NaN) \<and>
          (fr_top r = NaN \<longleftrightarrow> jsub (jdiv (height screen) (Fin 2)) ey = NaN) \<and>
          (fr_bottom r = NaN \<longleftrightarrow> jsub (jneg (jdiv (height screen) (Fin 2))) ey = NaN))) \<and>
   (z \<le> 0 \<and> 0 < n \<longrightarrow>
      (let r = calculateOffAxisFrustum \<lparr>vx = Fin x, vy = Fin y, vz = Fin z\<rparr>
                 \<lparr>width = Fin w, height = Fin h\<rparr> (Fin n) (Fin f)
       in fr_left r \<noteq> NaN \<and> fr_right r \<noteq> NaN \<and> fr_top r \<noteq> NaN \<and> fr_bottom r \<noteq> NaN \<and>
          fr_near r = Fin n \<and> fr_far r = Fin f))"
proof (intro conjI impI)
  assume "jle ez (Fin 0)"
  then show "calculateOffAxisFrustum \<lparr>vx = ex, vy = ey, vz = ez\<rparr> screen near far =
      calculateOffAxisFrustum \<lparr>vx = ex, vy = ey, vz = Fin 1\<rparr> screen near far"
    by (simp add: calculateOffAxisFrustum_nudge)
next
  assume "jle ez (Fin 0)"
  then show "calculateOffAxisFrustum \<lparr>vx = ex, vy = ey, vz = ez\<rparr> screen near far =
        \<lparr>fr_left = jmul (jsub (jneg (jdiv (width screen) (Fin 2))) ex) near,
         fr_right = jmul (jsub (jdiv (width screen) (Fin 2)) ex) near,
         fr_top = jmul (jsub (jdiv (height screen) (Fin 2)) ey) near,
         fr_bottom = jmul (jsub (jneg (jdiv (height screen) (Fin 2))) ey) near,
         fr_near = near, fr_far = far\<rparr>"
    by (simp add: calculateOffAxisFrustum_one_retry jdiv_one)
next
  assume "jle ez (Fin 0) \<and> 0 < n"
  then show "let r = calculateOffAxisFrustum \<lparr>vx = ex, vy = ey, vz = ez\<rparr> screen (Fin n) far
       in (fr_left r = NaN \<longleftrightarrow> jsub (jneg (jdiv (width screen) (Fin 2))) ex = NaN) \<and>
          (fr_right r = NaN \<longleftrightarrow> jsub (jdiv (width screen) (Fin 2)) ex = NaN) \<and>
          (fr_top r = NaN \<longleftrightarrow> jsub (jdiv (height screen) (Fin 2)) ey = NaN) \<and>
          (fr_bottom r = NaN \<longleftrightarrow> jsub (jneg (jdiv (height screen) (Fin 2))) ey = NaN)"
    by (simp add: calculateOffAxisFrustum_one_retry jdiv_one jmul_pos_NaN_iff Let_def)
next
  assume "z \<le> 0 \<and> 0 < n"
  then show "let r = calculateOffAxisFrustum \<lparr>vx = Fin x, vy = Fin y, vz = Fin z\<rparr>
                 \<lparr>width = Fin w, height = Fin h\<rparr> (Fin n) (Fin f)
       in fr_left r \<noteq> NaN \<and> fr_right r \<noteq> NaN \<and> fr_top r \<noteq> NaN \<and> fr_bottom r \<noteq> NaN \<and>
          fr_near r = Fin n \<and> fr_far r = Fin f"
    by (simp add: calculateOffAxisFrustum_one_retry jsub_def Let_def)
qed

theorem degenerate_eye_fallback_witness:
  "jle (Fin 0) (Fin 0) \<and> (0::real) \<le> 0 \<and> (0::real) < 1 \<and>
   calculateOffAxisFrustum \<lparr>vx = Fin 5, vy = Fin 3, vz = Fin 0\<rparr>
     \<lparr>width = Fin 344, height = Fin 215\<rparr> (Fin 1) (Fin 10000) =
   calculateOffAxisFrustum \<lparr>vx = Fin 5, vy = Fin 3, vz = Fin 1\<rparr>
     \<lparr>width = Fin 344, height = Fin 215\<rparr> (Fin 1) (Fin 10000) \<and>
   calculateOffAxisFrustum \<lparr>vx = Fin 5, vy = Fin 3, vz = Fin 0\<rparr>
     \<lparr>width = Fin 344, height = Fin 215\<rparr> (Fin 1) (Fin 10000) =
   \<lparr>fr_left = Fin (- 177), fr_right = Fin 167, fr_top = Fin 104.5, fr_bottom = Fin (- 110.5),
    fr_near = Fin 1, fr_far = Fin 10000\<rparr> \<and>
   fr_left (calculateOffAxisFrustum \<lparr>vx = Fin 5, vy = Fin 3, vz = Fin 0\<rparr>
     \<lparr>width = Fin 344, height = Fin 215\<rparr> (Fin 1) (Fin 10000)) \<noteq> NaN \<and>
   fr_right (calculateOffAxisFrustum \<lparr>vx = Fin 5, vy = Fin 3, vz = Fin 0\<rparr>
     \<lparr>width = Fin 344, height = Fin 215\<rparr> (Fin 1) (Fin 10000)) \<noteq> NaN \<and>
   fr_top (calculateOffAxisFrustum \<lparr>vx = Fin 5, vy = Fin 3, vz = Fin 0\<rparr>
     \<lparr>width = Fin 344, height = Fin 215\<rparr> (Fin 1) (Fin 10000)) \<noteq> NaN \<and>
   fr_bottom (calculateOffAxisFrustum \<lparr>vx = Fin 5, vy = Fin 3, vz = Fin 0\<rparr>
     \<lparr>width = Fin 344, height = Fin 215\<rparr> (Fin 1) (Fin 10000)) \<noteq> NaN"
proof -
  let ?r0 = "calculateOffAxisFrustum \<lparr>vx = Fin 5, vy = Fin 3, vz = Fin 0\<rparr>
     \<lparr>width = Fin 344, height = Fin 215\<rparr> (Fin 1) (Fin 10000)"
  note fallback = degenerate_eye_fallback [of "Fin 0" "Fin 5" "Fin 3"
      "\<lparr>width = Fin 344, height = Fin 215\<rparr>" "Fin 1" "Fin 10000" 1 0 5 3 344 215 10000]
  have guard: "jle (Fin 0) (Fin 0)" and z: "(0::real) \<le> 0" and n: "(0::real) < 1"
    by simp_all
  from fallback [THEN conjunct1] guard
  have same: "?r0 = calculateOffAxisFrustum \<lparr>vx = Fin 5, vy = Fin 3, vz = Fin 1\<rparr>
       \<lparr>width = Fin 344, height = Fin 215\<rparr> (Fin 1) (Fin 10000)"
    by blast
  from fallback [THEN conjunct1] guard
  have "?r0 =
        \<lparr>fr_left = jmul (jsub (jneg (jdiv (width \<lparr>width = Fin 344, height = Fin 215\<rparr>) (Fin 2)))
                        (Fin 5)) (Fin 1),
         fr_right = jmul (jsub (jdiv (width \<lparr>width = Fin 344, height = Fin 215\<rparr>) (Fin 2))
                        (Fin 5)) (Fin 1),
         fr_top = jmul (jsub (jdiv (height \<lparr>width = Fin 344, height = Fin 215\<rparr>) (Fin 2))
                        (Fin 3)) (Fin 1),
         fr_bottom = jmul (jsub (jneg (jdiv (height \<lparr>width = Fin 344, height = Fin 215\<rparr>)
                        (Fin 2))) (Fin 3)) (Fin 1),
         fr_near = Fin 1, fr_far = Fin 10000\<rparr>"
    by blast
  then have vals: "?r0 =
     \<lparr>fr_left = Fin (- 177), fr_right = Fin 167, fr_top = Fin 104.5, fr_bottom = Fin (- 110.5),
      fr_near = Fin 1, fr_far = Fin 10000\<rparr>"
    by (simp add: jsub_def)
  from fallback [THEN conjunct2, THEN conjunct2] z n
  have nonan: "fr_left ?r0 \<noteq> NaN \<and> fr_right ?r0 \<noteq> NaN \<and> fr_top ?r0 \<noteq> NaN \<and>
      fr_bottom ?r0 \<noteq> NaN"
    by (simp add: Let_def)
  from guard z n same vals nonan show ?thesis by (intro conjI) simp_all
qed

subsection \<open>The recursive fallback\<close>

lemma calculateGeneralizedProjection_retry:
  "jle (eye_distance eyePos screenLL screenLR screenUL) (Fin 0) \<Longrightarrow>
   calculateGeneralizedProjection (Suc fuel) eyePos screenLL screenLR screenUL near far =
   calculateGeneralizedProjection fuel (nudged_eye eyePos screenLL screenLR screenUL)
     screenLL screenLR screenUL near far"
  by (simp add: eye_distance_def nudged_eye_def screen_normal_def Let_def)

lemma calculateGeneralizedProjection_direct:
  "\<not> jle (eye_distance eyePos screenLL screenLR screenUL) (Fin 0) \<Longrightarrow>
   calculateGeneralizedProjection (Suc fuel) eyePos screenLL screenLR screenUL near far \<noteq> None"
  by (simp add: eye_distance_def screen_normal_def Let_def)

lemma normalize_vec_finite:
  "\<exists>a' b' c'. normalize_vec \<lparr>vx = Fin a, vy = Fin b, vz = Fin c\<rparr> =
       \<lparr>vx = Fin a', vy = Fin b', vz = Fin c'\<rparr> \<and>
     (a' * a' + b' * b' + c' * c' = 1 \<or> a' = 0 \<and> b' = 0 \<and> c' = 0)"
proof (cases "a = 0 \<and> b = 0 \<and> c = 0")
  case True
  then show ?thesis by (simp add: normalize_vec_def jeq_def Let_def)
next
  case False
  define len where "len = sqrt (a * a + b * b + c * c)"
  have "0 \<le> a * a" "0 \<le> b * b" "0 \<le> c * c" by simp_all
  moreover have "0 < a * a \<or> 0 < b * b \<or> 0 < c * c"
    using False by (auto simp: zero_less_mult_iff not_less less_le)
  ultimately have pos: "0 < a * a + b * b + c * c" by linarith
  then have len: "0 < len" by (simp add: len_def)
  have sq: "len * len = a * a + b * b + c * c"
    using pos by (simp add: len_def)
  have "normalize_vec \<lparr>vx = Fin a, vy = Fin b, vz = Fin c\<rparr> =
      \<lparr>vx = Fin (a / len), vy = Fin (b / len), vz = Fin (c / len)\<rparr>"
    using pos len by (simp add: normalize_vec_def jeq_def len_def [symmetric] not_less Let_def)
  moreover have "(a / len) * (a / len) + (b / len) * (b / len) + (c / len) * (c / len) = 1"
  proof -
    have "(a / len) * (a / len) + (b / len) * (b / len) + (c / len) * (c / len) =
          (a * a + b * b + c * c) / (len * len)"
      by (simp add: add_divide_distrib)
    also have "\<dots> = 1"
      unfolding sq [symmetric] using len by simp
    finally show ?thesis .
  qed
  ultimately show ?thesis by blast
qed

lemma screen_normal_finite:
  "\<exists>n1 n2 n3.
     screen_normal \<lparr>vx = Fin lx, vy = Fin ly, vz = Fin lz\<rparr>
       \<lparr>vx = Fin rx, vy = Fin ry, vz = Fin rz\<rparr> \<lparr>vx = Fin ux, vy = Fin uy, vz = Fin uz\<rparr> =
       \<lparr>vx = Fin n1, vy = Fin n2, vz = Fin n3\<rparr> \<and>
     (n1 * n1 + n2 * n2 + n3 * n3 = 1 \<or> n1 = 0 \<and> n2 = 0 \<and> n3 = 0)"
proof -
  obtain r1 r2 r3 where r: "normalize_vec \<lparr>vx = Fin (rx - lx), vy = Fin (ry - ly),
      vz = Fin (rz - lz)\<rparr> = \<lparr>vx = Fin r1, vy = Fin r2, vz = Fin r3\<rparr>"
    using normalize_vec_finite [of "rx - lx" "ry - ly" "rz - lz"] by blast
  obtain u1 u2 u3 where u: "normalize_vec \<lparr>vx = Fin (ux - lx), vy = Fin (uy - ly),
      vz = Fin (uz - lz)\<rparr> = \<lparr>vx = Fin u1, vy = Fin u2, vz = Fin u3\<rparr>"
    using normalize_vec_finite [of "ux - lx" "uy - ly" "uz - lz"] by blast
  show ?thesis
    using normalize_vec_finite [of "r2 * u3 - r3 * u2" "r3 * u1 - r1 * u3" "r1 * u2 - r2 * u1"]
    by (simp add: screen_normal_def sub_def cross_def jsub_def r u)
qed

lemma nudged_eye_distance:
  fixes ex ey ez lx ly lz rx ry rz ux uy uz :: real
  defines "eye \<equiv> \<lparr>vx = Fin ex, vy = Fin ey, vz = Fin ez\<rparr>"
    and "LL \<equiv> \<lparr>vx = Fin lx, vy = Fin ly, vz = Fin lz\<rparr>"
    and "LR \<equiv> \<lparr>vx = Fin rx, vy = Fin ry, vz = Fin rz\<rparr>"
    and "UL \<equiv> \<lparr>vx = Fin ux, vy = Fin uy, vz = Fin uz\<rparr>"
  assumes nonzero: "screen_normal LL LR UL \<noteq> \<lparr>vx = Fin 0, vy = Fin 0, vz = Fin 0\<rparr>"
  shows "eye_distance (nudged_eye eye LL LR UL) LL LR UL = Fin 1"
proof -
  obtain n1 n2 n3 where n: "screen_normal LL LR UL = \<lparr>vx = Fin n1, vy = Fin n2, vz = Fin n3\<rparr>"
    and unit: "n1 * n1 + n2 * n2 + n3 * n3 = 1"
    using screen_normal_finite [of lx ly lz rx ry rz ux uy uz] nonzero
    unfolding LL_def LR_def UL_def by auto
  define d where "d = - ((lx - ex) * n1 + (ly - ey) * n2 + (lz - ez) * n3)"
  have dist: "eye_distance eye LL LR UL = Fin d"
    unfolding eye_distance_def n
    by (simp add: eye_def LL_def sub_def dot_def jsub_def d_def)
  have nudged: "nudged_eye eye LL LR UL =
      \<lparr>vx = Fin (ex + n1 * (1 - d)), vy = Fin (ey + n2 * (1 - d)), vz = Fin (ez + n3 * (1 - d))\<rparr>"
    unfolding nudged_eye_def dist n
    by (simp add: eye_def add_def scale_def jsub_def)
  have "- ((lx - (ex + n1 * (1 - d))) * n1 + (ly - (ey + n2 * (1 - d))) * n2 +
           (lz - (ez + n3 * (1 - d))) * n3) =
        d + (1 - d) * (n1 * n1 + n2 * n2 + n3 * n3)"
    by (simp add: d_def algebra_simps)
  then have one: "- ((lx - (ex + n1 * (1 - d))) * n1 + (ly - (ey + n2 * (1 - d))) * n2 +
           (lz - (ez + n3 * (1 - d))) * n3) = 1"
    by (simp add: unit)
  have "eye_distance (nudged_eye eye LL LR UL) LL LR UL =
        Fin (- ((lx - (ex + n1 * (1 - d))) * n1 + (ly - (ey + n2 * (1 - d))) * n2 +
           (lz - (ez + n3 * (1 - d))) * n3))"
    unfolding eye_distance_def nudged n
    by (simp add: LL_def sub_def dot_def jsub_def algebra_simps)
  then show ?thesis by (simp only: one)
qed

lemma one_retry_suffices:
  fixes ex ey ez lx ly lz rx ry rz ux uy uz :: real
  defines "eye \<equiv> \<lparr>vx = Fin ex, vy = Fin ey, vz = Fin ez\<rparr>"
    and "LL \<equiv> \<lparr>vx = Fin lx, vy = Fin ly, vz = Fin lz\<rparr>"
    and "LR \<equiv> \<lparr>vx = Fin rx, vy = Fin ry, vz = Fin rz\<rparr>"
    and "UL \<equiv> \<lparr>vx = Fin ux, vy = Fin uy, vz = Fin uz\<rparr>"
  assumes nonzero: "screen_normal LL LR UL \<noteq> \<lparr>vx = Fin 0, vy = Fin 0, vz = Fin 0\<rparr>"
  shows "calculateGeneralizedProjection (Suc (Suc fuel)) eye LL LR UL near far \<noteq> None"
proof (cases "jle (eye_distance eye LL LR UL) (Fin 0)")
  case False
  then show ?thesis by (rule calculateGeneralizedProjection_direct)
next
  case True
  have "eye_distance (nudged_eye eye LL LR UL) LL LR UL = Fin 1"
    using nonzero unfolding eye_def LL_def LR_def UL_def by (rule nudged_eye_distance)
  then have "\<not> jle (eye_distance (nudged_eye eye LL LR UL) LL LR UL) (Fin 0)" by simp
  then have "calculateGeneralizedProjection (Suc fuel) (nudged_eye eye LL LR UL) LL LR UL
      near far \<noteq> None"
    by (rule calculateGeneralizedProjection_direct)
  with calculateGeneralizedProjection_retry [OF True, of "Suc fuel" near far]
  show ?thesis by simp
qed

lemma degenerate_screen_fixes_eye:
  fixes ex ey ez lx ly lz :: real
  defines "eye \<equiv> \<lparr>vx = Fin ex, vy = Fin ey, vz = Fin ez\<rparr>"
    and "LL \<equiv> \<lparr>vx = Fin lx, vy = Fin ly, vz = Fin lz\<rparr>"
  assumes zero: "screen_normal LL LR UL = \<lparr>vx = Fin 0, vy = Fin 0, vz = Fin 0\<rparr>"
  shows "eye_distance eye LL LR UL = Fin 0" and "nudged_eye eye LL LR UL = eye"
proof -
  show d: "eye_distance eye LL LR UL = Fin 0"
    unfolding eye_distance_def zero
    by (simp add: eye_def LL_def sub_def dot_def jsub_def)
  show "nudged_eye eye LL LR UL = eye"
    unfolding nudged_eye_def d zero
    by (simp add: eye_def add_def scale_def jsub_def)
qed

lemma degenerate_screen_diverges:
  fixes ex ey ez lx ly lz :: real
  assumes "screen_normal \<lparr>vx = Fin lx, vy = Fin ly, vz = Fin lz\<rparr> LR UL =
             \<lparr>vx = Fin 0, vy = Fin 0, vz = Fin 0\<rparr>"
  shows "calculateGeneralizedProjection fuel \<lparr>vx = Fin ex, vy = Fin ey, vz = Fin ez\<rparr>
           \<lparr>vx = Fin lx, vy = Fin ly, vz = Fin lz\<rparr> LR UL near far = None"
proof (induction fuel)
  case 0
  show ?case by simp
next
  case (Suc fuel)
  from degenerate_screen_fixes_eye [OF assms, of ex ey ez]
  have d: "eye_distance \<lparr>vx = Fin ex, vy = Fin ey, vz = Fin ez\<rparr>
             \<lparr>vx = Fin lx, vy = Fin ly, vz = Fin lz\<rparr> LR UL = Fin 0"
    and e: "nudged_eye \<lparr>vx = Fin ex, vy = Fin ey, vz = Fin ez\<rparr>
             \<lparr>vx = Fin lx, vy = Fin ly, vz = Fin lz\<rparr> LR UL =
             \<lparr>vx = Fin ex, vy = Fin ey, vz = Fin ez\<rparr>"
    by simp_all
  have "jle (eye_distance \<lparr>vx = Fin ex, vy = Fin ey, vz = Fin ez\<rparr>
             \<lparr>vx = Fin lx, vy = Fin ly, vz = Fin lz\<rparr> LR UL) (Fin 0)"
    by (simp add: d)
  from calculateGeneralizedProjection_retry [OF this, of fuel near far] Suc.IH
  show ?case by (simp only: e)
qed

lemma example_degenerate_normal:
  "screen_normal \<lparr>vx = Fin 0, vy = Fin 0, vz = Fin 0\<rparr> \<lparr>vx = Fin 1, vy = Fin 0, vz = Fin 0\<rparr>
     \<lparr>vx = Fin 2, vy = Fin 0, vz = Fin 0\<rparr> = \<lparr>vx = Fin 0, vy = Fin 0, vz = Fin 0\<rparr>"
  by (simp add: screen_normal_def normalize_vec_def sub_def cross_def jsub_def jeq_def Let_def)

text \<open>
  C5. The fallback of \<open>calculateOffAxisFrustum\<close> retries once
  (\<open>calculateOffAxisFrustum_nudge\<close>, \<open>calculateOffAxisFrustum_one_retry\<close>). In exact
  arithmetic so does \<open>calculateGeneralizedProjection\<close> on finite inputs whose screen
  normal is not the zero vector (\<open>one_retry_suffices\<close>; rounding and overflow, which are
  not modelled, can add cases to the one below). For corners on one line \<open>normalize\<close>
  returns the zero vector as the normal, the distance \<open>d\<close> is 0, the nudged eye is the
  eye itself, and the call never returns, whatever depth is allowed: here for the corners
  (0,0,0), (1,0,0), (2,0,0) and the eye (0,0,600).
\<close>

theorem generalized_projection_collinear_corners_never_return:
  "calculateGeneralizedProjection fuel \<lparr>vx = Fin 0, vy = Fin 0, vz = Fin 600\<rparr>
     \<lparr>vx = Fin 0, vy = Fin 0, vz = Fin 0\<rparr> \<lparr>vx = Fin 1, vy = Fin 0, vz = Fin 0\<rparr>
     \<lparr>vx = Fin 2, vy = Fin 0, vz = Fin 0\<rparr> (Fin 1) (Fin 10000) = None"
  by (rule degenerate_screen_diverges [OF example_degenerate_normal])

section \<open>The scalar filter\<close>

lemma OneEuroFilter_new_consistent: "OneEuroFilter_consistent (OneEuroFilter_new a b c)"
  by (simp add: OneEuroFilter_consistent_def OneEuroFilter_new_def LowPassFilter_new_def)

lemma OneEuroFilter_reset_consistent: "OneEuroFilter_consistent (OneEuroFilter_reset s)"
  by (simp add: OneEuroFilter_consistent_def OneEuroFilter_reset_def LowPassFilter_reset_def)

lemma OneEuroFilter_filter_tPrev:
  "tPrev (snd (OneEuroFilter_filter s x t)) \<noteq> None"
  by (simp add: OneEuroFilter_filter_def Let_def split_def split: option.splits)

lemma OneEuroFilter_filter_consistent:
  "OneEuroFilter_consistent (snd (OneEuroFilter_filter s x t))"
  using OneEuroFilter_filter_tPrev [of s x t] by (auto simp: OneEuroFilter_consistent_def)

lemma OneEuroFilter_filter_returns_prev:
  assumes "OneEuroFilter_consistent s"
  shows "prev (xFilter (snd (OneEuroFilter_filter s x t))) = fst (OneEuroFilter_filter s x t)"
  using assms
  by (simp add: OneEuroFilter_consistent_def OneEuroFilter_filter_def LowPassFilter_filter_def
      Let_def split_def split: option.splits)

lemma OneEuroFilter_filter_stale:
  "tPrev s = Some tp \<Longrightarrow> jle (jsub t tp) (Fin 0) \<Longrightarrow>
   OneEuroFilter_filter s x t = (prev (xFilter s), s)"
  by (simp add: OneEuroFilter_filter_def)

lemma Math_PI_pos [simp]: "0 < Math_PI"
  by (simp add: Math_PI_def)

lemma Math_PI_nonzero [simp]: "Math_PI \<noteq> 0"
  by (simp add: Math_PI_def)

lemma example_scalar_eq:
  "OneEuroFilter_filter (OneEuroFilter_new None None None) (Fin 5) (Fin 1) =
     (Some (Fin 5), example_scalar)"
  by (simp add: example_scalar_def OneEuroFilter_filter_def OneEuroFilter_new_def
      LowPassFilter_new_def)


lemma OneEuroFilter_filter_advances:
  assumes "tPrev s = Some tp" and "jlt (Fin 0) (jsub t tp)"
  shows "tPrev (snd (OneEuroFilter_filter s x t)) = Some t \<and>
         prev (xFilter (snd (OneEuroFilter_filter s x t))) = fst (OneEuroFilter_filter s x t)"
  using assms jlt_not_jle [of "Fin 0" "jsub t tp"]
  by (simp add: OneEuroFilter_filter_def LowPassFilter_filter_def Let_def split_def
      split: option.splits)

text \<open>
  C6. Let a filter that satisfies the class invariant be called once, returning \<open>r0\<close>.
  Then it has a recorded timestamp, and a following call with \<open>dt \<le> 0\<close> against that
  timestamp returns \<open>r0\<close>, the last filtered value, for every input \<open>x\<close>, and leaves
  the state as it is.
\<close>

theorem stale_timestamp_returns_last:
  assumes "OneEuroFilter_consistent s0"
    and "OneEuroFilter_filter s0 x0 t0 = (r0, s1)"
  shows "\<exists>tp. tPrev s1 = Some tp \<and>
          (jle (jsub t tp) (Fin 0) \<longrightarrow> OneEuroFilter_filter s1 x t = (r0, s1))"
proof -
  from OneEuroFilter_filter_tPrev [of s0 x0 t0] assms(2)
  obtain tp where tp: "tPrev s1 = Some tp" by auto
  from OneEuroFilter_filter_returns_prev [OF assms(1), of x0 t0] assms(2)
  have "prev (xFilter s1) = r0" by simp
  with tp show ?thesis by (auto simp: OneEuroFilter_filter_stale)
qed

theorem stale_timestamp_returns_last_witness:
  "OneEuroFilter_consistent (OneEuroFilter_new None None None) \<and>
   OneEuroFilter_filter (OneEuroFilter_new None None None) (Fin 5) (Fin 1) =
     (Some (Fin 5), example_scalar) \<and>
   tPrev example_scalar = Some (Fin 1) \<and> jle (jsub (Fin 1) (Fin 1)) (Fin 0) \<and>
   OneEuroFilter_filter example_scalar (Fin 9) (Fin 1) = (Some (Fin 5), example_scalar)"
proof -
  have t: "tPrev example_scalar = Some (Fin 1)"
    by (simp add: example_scalar_def OneEuroFilter_filter_def OneEuroFilter_new_def)
  have d: "jle (jsub (Fin 1) (Fin 1)) (Fin 0)" by (simp add: jsub_def)
  from stale_timestamp_returns_last [OF OneEuroFilter_new_consistent example_scalar_eq,
      of "Fin 1" "Fin 9"] t d
  have "OneEuroFilter_filter example_scalar (Fin 9) (Fin 1) = (Some (Fin 5), example_scalar)"
    by simp
  with t d example_scalar_eq OneEuroFilter_new_consistent show ?thesis by simp
qed

section \<open>The vector filter\<close>

lemma Vector3OneEuroFilter_filter_eq:
  "Vector3OneEuroFilter_filter s pos t =
     (case (if jlt (Fin 0) (deadZone s) then lastOutput s else None) of
        Some lo \<Rightarrow>
          if jlt (dead_zone_dist (axis_filtered s pos t) lo) (deadZone s)
          then (lo, axis_advanced s pos t)
          else (axis_filtered s pos t,
                (axis_advanced s pos t)\<lparr>lastOutput := Some (axis_filtered s pos t)\<rparr>)
      | None \<Rightarrow> (axis_filtered s pos t,
                (axis_advanced s pos t)\<lparr>lastOutput := Some (axis_filtered s pos t)\<rparr>))"
  by (simp add: Vector3OneEuroFilter_filter_def axis_filtered_def axis_advanced_def
      split_def Let_def split: option.splits)


lemma example_filter_eq:
  "example_filter =
     \<lparr>filterX = example_axis, filterY = example_axis, filterZ = example_axis,
      deadZone = Fin 2, lastOutput = Some origin_out\<rparr>"
  by (simp add: example_filter_def Vector3OneEuroFilter_filter_def Vector3OneEuroFilter_new_def
      OneEuroFilter_new_def LowPassFilter_new_def OneEuroFilter_filter_def
      LowPassFilter_filter_def default_to_def DEFAULT_DEAD_ZONE_def origin_def origin_out_def
      example_axis_def Let_def)

lemma example_alpha: "OneEuroFilter_alpha (Fin 1) example_time = Fin (1 / 2)"
  by (simp add: OneEuroFilter_alpha_def example_time_def Let_def)

lemma example_dt: "jsub example_time (Fin 0) = example_time" "\<not> jle example_time (Fin 0)"
  by (simp_all add: example_time_def jsub_def not_le)

lemma example_axis_step:
  "OneEuroFilter_filter example_axis (Fin a) example_time =
     (Some (Fin (a / 2)),
      \<lparr>minCutoff = Fin 1, beta = Fin 0, dCutoff = Fin 1,
       xFilter = \<lparr>prev = Some (Fin (a / 2))\<rparr>,
       dxFilter = \<lparr>prev = Some (Fin (a * Math_PI))\<rparr>,
       tPrev = Some example_time\<rparr>)"
  apply (simp add: OneEuroFilter_filter_def example_axis_def example_dt Let_def ToNumber_def
      LowPassFilter_filter_def)
  apply (simp add: example_time_def jsub_def example_alpha [unfolded example_time_def])
  done

lemma example_filtered:
  "axis_filtered example_filter \<lparr>vx = Fin a, vy = Fin 0, vz = Fin 0\<rparr> example_time =
     \<lparr>vx = Some (Fin (a / 2)), vy = Some (Fin 0), vz = Some (Fin 0)\<rparr>"
  by (simp add: axis_filtered_def example_filter_eq example_axis_step)

lemma example_dist:
  "dead_zone_dist \<lparr>vx = Some (Fin a), vy = Some (Fin 0), vz = Some (Fin 0)\<rparr> origin_out =
     Fin \<bar>a\<bar>"
  by (simp add: dead_zone_dist_def origin_out_def ToNumber_def jsub_def Let_def)



lemma OneEuroFilter_filter_stale_unchanged:
  "tPrev s = Some tp \<Longrightarrow> jle (jsub t tp) (Fin 0) \<Longrightarrow>
   snd (OneEuroFilter_filter s x t) = s"
  by (simp add: OneEuroFilter_filter_stale)

lemma example_axis_same_time:
  "OneEuroFilter_filter example_axis x (Fin 0) = (Some (Fin 0), example_axis)"
  by (simp add: OneEuroFilter_filter_def example_axis_def jsub_def Let_def)

lemma example_axis_step': 
  "OneEuroFilter_filter example_axis (Fin a) example_time = (Some (Fin (a / 2)), advanced_axis a)"
  by (simp add: example_axis_step advanced_axis_def)

lemma OneEuroFilter_alpha_finite:
  assumes "0 < dt"
  shows "OneEuroFilter_alpha (Fin 1) (Fin dt) = Fin (1 / (1 + 1 / (2 * Math_PI) / dt))"
proof -
  have "0 < 1 / (2 * Math_PI) / dt" using assms by simp
  then have "1 + 1 / (2 * Math_PI) / dt \<noteq> 0" by linarith
  then show ?thesis
    using assms by (simp add: OneEuroFilter_alpha_def Let_def)
qed

lemma beta_zero_axis_step:
  assumes "tPrev s = Some (Fin tp)" and "prev (xFilter s) = Some (Fin p)"
    and "prev (dxFilter s) = Some (Fin q)"
    and "minCutoff s = Fin 1" and "beta s = Fin 0" and "dCutoff s = Fin 1"
    and "tp < t"
  shows "fst (OneEuroFilter_filter s (Fin x) (Fin t)) =
           Some (Fin (1 / (1 + 1 / (2 * Math_PI) / (t - tp)) * x +
                      (1 - 1 / (1 + 1 / (2 * Math_PI) / (t - tp))) * p))"
proof -
  have dt: "0 < t - tp" using assms(7) by simp
  have sub: "jsub (Fin t) (Fin tp) = Fin (t - tp)" by (simp add: jsub_def)
  have guard: "\<not> jle (Fin (t - tp)) (Fin 0)" using assms(7) by simp
  note alpha = OneEuroFilter_alpha_finite [OF dt]
  have nz: "t - tp \<noteq> 0" using assms(7) by simp
  show ?thesis
    using nz
    by (simp add: OneEuroFilter_filter_def assms(1-6) sub guard alpha LowPassFilter_filter_def
        ToNumber_def Let_def split_def jsub_def del: jle.simps)
qed

lemma advanced_axis_next:
  "fst (OneEuroFilter_filter (advanced_axis p) (Fin a) example_time2) =
     Some (Fin ((a + p / 2) / 2))"
proof -
  have "tPrev (advanced_axis p) = Some (Fin (1 / (2 * Math_PI)))"
    by (simp add: advanced_axis_def example_time_def)
  moreover have "1 / (2 * Math_PI) < 1 / Math_PI"
    by (simp add: field_simps)
  moreover have "1 / Math_PI - 1 / (2 * Math_PI) = 1 / (2 * Math_PI)"
    by (simp add: field_simps)
  ultimately show ?thesis
    unfolding example_time2_def
    by (subst beta_zero_axis_step [where tp = "1 / (2 * Math_PI)" and p = "p / 2"
          and q = "p * Math_PI"])
       (simp_all add: advanced_axis_def field_simps)
qed

lemma example_axis_next:
  "fst (OneEuroFilter_filter example_axis (Fin a) example_time2) = Some (Fin (2 * a / 3))"
proof -
  have "(0::real) < 1 / Math_PI" by simp
  then show ?thesis
    unfolding example_time2_def
    by (subst beta_zero_axis_step [where tp = 0 and p = 0 and q = 0])
       (simp_all add: example_axis_def field_simps)
qed

text \<open>
  C10. The claim has the per-axis states and timestamps advanced by every suppressed
  sample. A sample whose timestamp is not later than the recorded one is ignored by the
  axis filters themselves (\<open>dt \<le> 0\<close>): here a sample (2, 0, 0) at the recorded time 0
  is suppressed by the dead zone (distance 0) and the whole filter state is unchanged.
\<close>

theorem suppressed_stale_sample_counterexample:
  "lastOutput example_filter = Some origin_out \<and>
   tPrev (filterX example_filter) = Some (Fin 0) \<and>
   dead_zone_dist (axis_filtered example_filter \<lparr>vx = Fin 2, vy = Fin 0, vz = Fin 0\<rparr> (Fin 0))
     origin_out = Fin 0 \<and>
   Vector3OneEuroFilter_filter example_filter \<lparr>vx = Fin 2, vy = Fin 0, vz = Fin 0\<rparr> (Fin 0) =
     (origin_out, example_filter)"
proof -
  have f: "axis_filtered example_filter \<lparr>vx = Fin 2, vy = Fin 0, vz = Fin 0\<rparr> (Fin 0) = origin_out"
    by (simp add: axis_filtered_def example_filter_eq example_axis_same_time origin_out_def)
  have a: "axis_advanced example_filter \<lparr>vx = Fin 2, vy = Fin 0, vz = Fin 0\<rparr> (Fin 0) =
      example_filter"
    by (simp add: axis_advanced_def example_filter_eq example_axis_same_time)
  have d: "dead_zone_dist origin_out origin_out = Fin 0"
    using example_dist [of 0] by (simp add: origin_out_def)
  have lo: "lastOutput example_filter = Some origin_out" "deadZone example_filter = Fin 2"
    "tPrev (filterX example_filter) = Some (Fin 0)"
    by (simp_all add: example_filter_eq example_axis_def)
  show ?thesis
    by (simp add: Vector3OneEuroFilter_filter_eq f a d lo)
qed

text \<open>
  C10, amended. When the dead zone suppresses a sample, the call returns the last emitted
  point and the new state is the old one with each of the three axis filters replaced by
  its state after \<open>OneEuroFilter.filter\<close> on the sample: only the last emitted point is
  left as it was. An axis whose recorded timestamp is earlier than the sample's records
  the sample's timestamp and the new filtered value; an axis with \<open>dt \<le> 0\<close> is
  unchanged. The per-axis values of the next call are computed from these states. In the
  witness a suppressed sample moves the x axis from 0 to 1 and the next filtered x is 7/2
  instead of 4.
\<close>

theorem suppressed_sample_runs_axis_filters:
  assumes "lastOutput s = Some lo" and "jlt (Fin 0) (deadZone s)"
    and "jlt (dead_zone_dist (axis_filtered s pos t) lo) (deadZone s)"
  shows "Vector3OneEuroFilter_filter s pos t =
           (lo, s\<lparr>filterX := snd (OneEuroFilter_filter (filterX s) (vx pos) t),
                  filterY := snd (OneEuroFilter_filter (filterY s) (vy pos) t),
                  filterZ := snd (OneEuroFilter_filter (filterZ s) (vz pos) t)\<rparr>) \<and>
         (\<forall>tp. tPrev (filterX s) = Some tp \<and> jlt (Fin 0) (jsub t tp) \<longrightarrow>
            tPrev (filterX (snd (Vector3OneEuroFilter_filter s pos t))) = Some t \<and>
            prev (xFilter (filterX (snd (Vector3OneEuroFilter_filter s pos t)))) =
              vx (axis_filtered s pos t)) \<and>
         (\<forall>tp. tPrev (filterY s) = Some tp \<and> jlt (Fin 0) (jsub t tp) \<longrightarrow>
            tPrev (filterY (snd (Vector3OneEuroFilter_filter s pos t))) = Some t \<and>
            prev (xFilter (filterY (snd (Vector3OneEuroFilter_filter s pos t)))) =
              vy (axis_filtered s pos t)) \<and>
         (\<forall>tp. tPrev (filterZ s) = Some tp \<and> jlt (Fin 0) (jsub t tp) \<longrightarrow>
            tPrev (filterZ (snd (Vector3OneEuroFilter_filter s pos t))) = Some t \<and>
            prev (xFilter (filterZ (snd (Vector3OneEuroFilter_filter s pos t)))) =
              vz (axis_filtered s pos t)) \<and>
         (\<forall>tp. tPrev (filterX s) = Some tp \<and> jle (jsub t tp) (Fin 0) \<longrightarrow>
            filterX (snd (Vector3OneEuroFilter_filter s pos t)) = filterX s) \<and>
         (\<forall>tp. tPrev (filterY s) = Some tp \<and> jle (jsub t tp) (Fin 0) \<longrightarrow>
            filterY (snd (Vector3OneEuroFilter_filter s pos t)) = filterY s) \<and>
         (\<forall>tp. tPrev (filterZ s) = Some tp \<and> jle (jsub t tp) (Fin 0) \<longrightarrow>
            filterZ (snd (Vector3OneEuroFilter_filter s pos t)) = filterZ s) \<and>
         axis_filtered (snd (Vector3OneEuroFilter_filter s pos t)) pos' t' =
           \<lparr>vx = fst (OneEuroFilter_filter
                        (snd (OneEuroFilter_filter (filterX s) (vx pos) t)) (vx pos') t'),
            vy = fst (OneEuroFilter_filter
                        (snd (OneEuroFilter_filter (filterY s) (vy pos) t)) (vy pos') t'),
            vz = fst (OneEuroFilter_filter
                        (snd (OneEuroFilter_filter (filterZ s) (vz pos) t)) (vz pos') t')\<rparr>"
proof -
  have eq: "Vector3OneEuroFilter_filter s pos t =
           (lo, s\<lparr>filterX := snd (OneEuroFilter_filter (filterX s) (vx pos) t),
                  filterY := snd (OneEuroFilter_filter (filterY s) (vy pos) t),
                  filterZ := snd (OneEuroFilter_filter (filterZ s) (vz pos) t)\<rparr>)"
    using assms by (simp add: Vector3OneEuroFilter_filter_eq axis_advanced_def)
  show ?thesis
    unfolding eq
    by (simp add: axis_filtered_def OneEuroFilter_filter_advances
        OneEuroFilter_filter_stale_unchanged)
qed

theorem suppressed_sample_runs_axis_filters_witness:
  "lastOutput example_filter = Some origin_out \<and>
   jlt (Fin 0) (deadZone example_filter) \<and>
   jlt (dead_zone_dist
         (axis_filtered example_filter \<lparr>vx = Fin 2, vy = Fin 0, vz = Fin 0\<rparr> example_time)
         origin_out) (deadZone example_filter) \<and>
   tPrev (filterX example_filter) = Some (Fin 0) \<and>
   prev (xFilter (filterX example_filter)) = Some (Fin 0) \<and>
   jlt (Fin 0) (jsub example_time (Fin 0)) \<and>
   fst (Vector3OneEuroFilter_filter example_filter
          \<lparr>vx = Fin 2, vy = Fin 0, vz = Fin 0\<rparr> example_time) = origin_out \<and>
   lastOutput (snd (Vector3OneEuroFilter_filter example_filter
          \<lparr>vx = Fin 2, vy = Fin 0, vz = Fin 0\<rparr> example_time)) = Some origin_out \<and>
   tPrev (filterX (snd (Vector3OneEuroFilter_filter example_filter
          \<lparr>vx = Fin 2, vy = Fin 0, vz = Fin 0\<rparr> example_time))) = Some example_time \<and>
   prev (xFilter (filterX (snd (Vector3OneEuroFilter_filter example_filter
          \<lparr>vx = Fin 2, vy = Fin 0, vz = Fin 0\<rparr> example_time)))) = Some (Fin 1) \<and>
   vx (axis_filtered (snd (Vector3OneEuroFilter_filter example_filter
          \<lparr>vx = Fin 2, vy = Fin 0, vz = Fin 0\<rparr> example_time))
          \<lparr>vx = Fin 6, vy = Fin 0, vz = Fin 0\<rparr> example_time2) = Some (Fin (7 / 2)) \<and>
   vx (axis_filtered example_filter \<lparr>vx = Fin 6, vy = Fin 0, vz = Fin 0\<rparr> example_time2) =
     Some (Fin 4)"
proof -
  let ?p = "\<lparr>vx = Fin 2, vy = Fin 0, vz = Fin 0\<rparr> :: jsnum vec3"
  let ?q = "\<lparr>vx = Fin 6, vy = Fin 0, vz = Fin 0\<rparr> :: jsnum vec3"
  have lo: "lastOutput example_filter = Some origin_out"
    and dz: "jlt (Fin 0) (deadZone example_filter)"
    and tp: "tPrev (filterX example_filter) = Some (Fin 0)"
    and p0: "prev (xFilter (filterX example_filter)) = Some (Fin 0)"
    and fx: "filterX example_filter = example_axis"
    by (simp_all add: example_filter_eq example_axis_def)
  have dist: "jlt (dead_zone_dist (axis_filtered example_filter ?p example_time) origin_out)
                (deadZone example_filter)"
  proof -
    have "deadZone example_filter = Fin 2" by (simp add: example_filter_eq)
    then show ?thesis by (simp add: example_filtered example_dist)
  qed
  have dt: "jlt (Fin 0) (jsub example_time (Fin 0))"
    by (simp add: example_time_def jsub_def)
  note adv = suppressed_sample_runs_axis_filters [OF lo dz dist, of ?q example_time2]
  from adv [THEN conjunct1]
  have out: "fst (Vector3OneEuroFilter_filter example_filter ?p example_time) = origin_out"
    and keep: "lastOutput (snd (Vector3OneEuroFilter_filter example_filter ?p example_time)) =
                 Some origin_out"
    by (simp_all add: lo)
  from adv [THEN conjunct2, THEN conjunct1] tp dt
  have x: "tPrev (filterX (snd (Vector3OneEuroFilter_filter example_filter ?p example_time))) =
             Some example_time"
      "prev (xFilter (filterX (snd (Vector3OneEuroFilter_filter example_filter ?p
             example_time)))) = Some (Fin 1)"
    by (simp_all add: example_filtered)
  have fut: "axis_filtered (snd (Vector3OneEuroFilter_filter example_filter ?p example_time))
      ?q example_time2 =
      \<lparr>vx = fst (OneEuroFilter_filter
                   (snd (OneEuroFilter_filter (filterX example_filter) (vx ?p) example_time))
                   (vx ?q) example_time2),
       vy = fst (OneEuroFilter_filter
                   (snd (OneEuroFilter_filter (filterY example_filter) (vy ?p) example_time))
                   (vy ?q) example_time2),
       vz = fst (OneEuroFilter_filter
                   (snd (OneEuroFilter_filter (filterZ example_filter) (vz ?p) example_time))
                   (vz ?q) example_time2)\<rparr>"
    using adv by blast
  have later: "vx (axis_filtered (snd (Vector3OneEuroFilter_filter example_filter ?p
      example_time)) ?q example_time2) = Some (Fin (7 / 2))"
    unfolding fut by (simp add: fx example_axis_step' advanced_axis_next)
  have without: "vx (axis_filtered example_filter ?q example_time2) = Some (Fin 4)"
    by (simp add: axis_filtered_def fx example_axis_next)
  from lo dz dist tp p0 dt out keep x later without show ?thesis by (intro conjI)
qed

section \<open>The head pose estimator\<close>

lemma estimate_absent:
  "landmarks = None \<or> landmarks = Some [] \<Longrightarrow>
   estimate s landmarks now =
     (Inr None,
      if wasTracking s
      then s\<lparr>filter_v := Vector3OneEuroFilter_reset (filter_v s), wasTracking := False\<rparr>
      else s)"
  by (auto simp: estimate_def)

lemma estimate_present_tracking:
  "lms \<noteq> [] \<Longrightarrow> wasTracking (snd (estimate s (Some lms) now))"
  by (simp add: estimate_def Let_def split_def split: sum.splits)


lemma example_landmarks_at:
  "landmark_at example_landmarks 1 = Inr \<lparr>vx = Fin 0.5, vy = Fin 0.5, vz = Fin 0\<rparr>"
  "landmark_at example_landmarks 469 = Inr \<lparr>vx = Fin 0.5, vy = Fin 0.5, vz = Fin 0\<rparr>"
  "landmark_at example_landmarks 471 = Inr \<lparr>vx = Fin (0.5 + 10 / 640), vy = Fin 0.5, vz = Fin 0\<rparr>"
  "landmark_at example_landmarks 474 = Inr \<lparr>vx = Fin 0.5, vy = Fin 0.5, vz = Fin 0\<rparr>"
  "landmark_at example_landmarks 476 = Inr \<lparr>vx = Fin (0.5 + 10 / 640), vy = Fin 0.5, vz = Fin 0\<rparr>"
  by (simp_all add: landmark_at_def example_landmarks_def)

lemma example_landmarks_nonempty: "example_landmarks \<noteq> []"
  by (simp add: example_landmarks_def)


lemma example_estimator_eq:
  "example_estimator =
     \<lparr>screenW = Fin 344, screenH = Fin 215, defaultZ = Fin 600, videoW = Fin 640,
      videoH = Fin 480, sensX = Fin 1, sensY = Fin 1, sensZ = Fin 1, useIrisDepth = False,
      focalLengthPx = None,
      filter_v = Vector3OneEuroFilter_new None None None None, wasTracking = False\<rparr>"
  by (simp add: example_estimator_def HeadPoseEstimator_new_def example_config_def default_to_def)

lemma fresh_axis_step:
  "OneEuroFilter_filter (OneEuroFilter_new (Some (Fin 1)) (Some (Fin (1 / 2))) (Some (Fin 1)))
     (Fin v) (Fin 1) = (Some (Fin v), tracked_axis v)"
  by (simp add: OneEuroFilter_filter_def OneEuroFilter_new_def LowPassFilter_new_def
      LowPassFilter_filter_def default_to_def tracked_axis_def Let_def)

lemma example_tracking_eq:
  "example_tracking =
     \<lparr>screenW = Fin 344, screenH = Fin 215, defaultZ = Fin 600, videoW = Fin 640,
      videoH = Fin 480, sensX = Fin 1, sensY = Fin 1, sensZ = Fin 1, useIrisDepth = False,
      focalLengthPx = None,
      filter_v = \<lparr>filterX = tracked_axis 0, filterY = tracked_axis 0,
                   filterZ = tracked_axis 600, deadZone = Fin 2,
                   lastOutput = Some \<lparr>vx = Some (Fin 0), vy = Some (Fin 0),
                                       vz = Some (Fin 600)\<rparr>\<rparr>,
      wasTracking = True\<rparr>"
  by (simp add: example_tracking_def estimate_def example_estimator_eq example_landmarks_at
      Vector3OneEuroFilter_filter_def Vector3OneEuroFilter_new_def fresh_axis_step
      default_to_def DEFAULT_DEAD_ZONE_def jsub_def Let_def
      example_landmarks_nonempty del: One_nat_def)





text \<open>
  C9. With absent or empty landmarks \<open>estimate\<close> returns none. When the tracking
  flag was set, the new state is the old one with the flag cleared, the last emitted point
  forgotten and, on each of the three axes, the stored value, the stored derivative and
  the timestamp cleared (the filter parameters stay); when the flag was not set, the
  state is unchanged. A second such call changes nothing. A call with landmarks sets the
  flag, so the reset happens once per loss of tracking.
\<close>

theorem tracking_loss_resets_once:
  assumes "landmarks = None \<or> landmarks = Some []"
    and "landmarks' = None \<or> landmarks' = Some []"
  shows "fst (estimate s landmarks now) = Inr None \<and>
         (wasTracking s \<longrightarrow>
            snd (estimate s landmarks now) =
              s\<lparr>filter_v := (filter_v s)
                     \<lparr>filterX := (filterX (filter_v s))
                        \<lparr>xFilter := (xFilter (filterX (filter_v s)))\<lparr>prev := None\<rparr>,
                         dxFilter := (dxFilter (filterX (filter_v s)))\<lparr>prev := None\<rparr>,
                         tPrev := None\<rparr>,
                      filterY := (filterY (filter_v s))
                        \<lparr>xFilter := (xFilter (filterY (filter_v s)))\<lparr>prev := None\<rparr>,
                         dxFilter := (dxFilter (filterY (filter_v s)))\<lparr>prev := None\<rparr>,
                         tPrev := None\<rparr>,
                      filterZ := (filterZ (filter_v s))
                        \<lparr>xFilter := (xFilter (filterZ (filter_v s)))\<lparr>prev := None\<rparr>,
                         dxFilter := (dxFilter (filterZ (filter_v s)))\<lparr>prev := None\<rparr>,
                         tPrev := None\<rparr>,
                      lastOutput := None\<rparr>,
                wasTracking := False\<rparr>) \<and>
         (\<not> wasTracking s \<longrightarrow> snd (estimate s landmarks now) = s) \<and>
         estimate (snd (estimate s landmarks now)) landmarks' now' =
           (Inr None, snd (estimate s landmarks now)) \<and>
         (lms \<noteq> [] \<longrightarrow> wasTracking (snd (estimate s0 (Some lms) now0)))"
proof -
  have first: "estimate s landmarks now =
     (Inr None,
      if wasTracking s
      then s\<lparr>filter_v := Vector3OneEuroFilter_reset (filter_v s), wasTracking := False\<rparr>
      else s)"
    by (rule estimate_absent [OF assms(1)])
  have again: "estimate (snd (estimate s landmarks now)) landmarks' now' =
           (Inr None, snd (estimate s landmarks now))"
    by (simp add: first estimate_absent [OF assms(2)])
  show ?thesis
    by (intro conjI impI again estimate_present_tracking)
       (simp_all add: first Vector3OneEuroFilter_reset_def OneEuroFilter_reset_def
          LowPassFilter_reset_def)
qed

theorem tracking_loss_resets_once_witness:
  "wasTracking example_tracking \<and>
   lastOutput (filter_v example_tracking) =
     Some \<lparr>vx = Some (Fin 0), vy = Some (Fin 0), vz = Some (Fin 600)\<rparr> \<and>
   tPrev (filterZ (filter_v example_tracking)) = Some (Fin 1) \<and>
   prev (xFilter (filterZ (filter_v example_tracking))) = Some (Fin 600) \<and>
   estimate example_tracking None (Fin 1016) = (Inr None, example_lost) \<and>
   lastOutput (filter_v example_lost) = None \<and>
   tPrev (filterZ (filter_v example_lost)) = None \<and>
   prev (xFilter (filterZ (filter_v example_lost))) = None \<and>
   estimate example_lost (Some []) (Fin 1032) = (Inr None, example_lost)"
proof -
  have absent: "None = None \<or> None = Some ([] :: jsnum vec3 list)"
    and empty: "Some [] = None \<or> Some [] = Some ([] :: jsnum vec3 list)"
    by simp_all
  note once = tracking_loss_resets_once [OF absent empty, of example_tracking "Fin 1016"
      "Fin 1032" example_landmarks example_estimator "Fin 1000"]
  have tr: "wasTracking example_tracking"
    unfolding example_tracking_def
    using once [THEN conjunct2, THEN conjunct2, THEN conjunct2, THEN conjunct2]
      example_landmarks_nonempty by blast
  have before: "lastOutput (filter_v example_tracking) =
       Some \<lparr>vx = Some (Fin 0), vy = Some (Fin 0), vz = Some (Fin 600)\<rparr>"
    "tPrev (filterZ (filter_v example_tracking)) = Some (Fin 1)"
    "prev (xFilter (filterZ (filter_v example_tracking))) = Some (Fin 600)"
    by (simp_all add: example_tracking_eq tracked_axis_def)
  have none: "fst (estimate example_tracking None (Fin 1016)) = Inr None"
    by (rule once [THEN conjunct1])
  from once [THEN conjunct2, THEN conjunct1] tr
  have "snd (estimate example_tracking None (Fin 1016)) =
      example_tracking\<lparr>filter_v := (filter_v example_tracking)
                     \<lparr>filterX := (filterX (filter_v example_tracking))
                        \<lparr>xFilter := (xFilter (filterX (filter_v example_tracking)))\<lparr>prev := None\<rparr>,
                         dxFilter := (dxFilter (filterX (filter_v example_tracking)))\<lparr>prev := None\<rparr>,
                         tPrev := None\<rparr>,
                      filterY := (filterY (filter_v example_tracking))
                        \<lparr>xFilter := (xFilter (filterY (filter_v example_tracking)))\<lparr>prev := None\<rparr>,
                         dxFilter := (dxFilter (filterY (filter_v example_tracking)))\<lparr>prev := None\<rparr>,
                         tPrev := None\<rparr>,
                      filterZ := (filterZ (filter_v example_tracking))
                        \<lparr>xFilter := (xFilter (filterZ (filter_v example_tracking)))\<lparr>prev := None\<rparr>,
                         dxFilter := (dxFilter (filterZ (filter_v example_tracking)))\<lparr>prev := None\<rparr>,
                         tPrev := None\<rparr>,
                      lastOutput := None\<rparr>,
                wasTracking := False\<rparr>"
    by blast
  then have lost: "snd (estimate example_tracking None (Fin 1016)) = example_lost"
    by (simp add: example_tracking_eq tracked_axis_def example_lost_def)
  from none lost have first: "estimate example_tracking None (Fin 1016) = (Inr None, example_lost)"
    by (simp add: prod_eq_iff)
  have after: "lastOutput (filter_v example_lost) = None"
    "tPrev (filterZ (filter_v example_lost)) = None"
    "prev (xFilter (filterZ (filter_v example_lost))) = None"
    by (simp_all add: example_lost_def)
  have again: "estimate example_lost (Some []) (Fin 1032) = (Inr None, example_lost)"
    using once [THEN conjunct2, THEN conjunct2, THEN conjunct2, THEN conjunct1]
    by (simp only: lost)
  from tr before first after again show ?thesis by (intro conjI)
qed




end
